theory Spec2Isabelle
  imports Main
begin

section \<open>The status taxonomy (response.go)\<close>

text \<open>
  \<open>StatusCode\<close> is a Go \<open>int\<close> with sixteen named constants numbered by \<open>iota\<close>.
  Any other integer is a legal \<open>StatusCode\<close> value too (the package's own test calls
  \<open>newError(-1, ...)\<close>), so the type is \<open>int\<close> and the constants are numbers.
\<close>

type_synonym StatusCode = int

definition InvalidArgument :: StatusCode where "InvalidArgument = 0"
definition FailedPrecondition :: StatusCode where "FailedPrecondition = 1"
definition OutOfRange :: StatusCode where "OutOfRange = 2"
definition Unauthenticated :: StatusCode where "Unauthenticated = 3"
definition PermissionDenied :: StatusCode where "PermissionDenied = 4"
definition NotFound :: StatusCode where "NotFound = 5"
definition Aborted :: StatusCode where "Aborted = 6"
definition AlreadyExists :: StatusCode where "AlreadyExists = 7"
definition ResourceExhausted :: StatusCode where "ResourceExhausted = 8"
definition Cancelled :: StatusCode where "Cancelled = 9"
definition DataLoss :: StatusCode where "DataLoss = 10"
definition Unknown :: StatusCode where "Unknown = 11"
definition Internal :: StatusCode where "Internal = 12"
definition NotImplemented :: StatusCode where "NotImplemented = 13"
definition Unavailable :: StatusCode where "Unavailable = 14"
definition DeadlineExceeded :: StatusCode where "DeadlineExceeded = 15"

text \<open>The table \<open>statuses\<close>: a Go map literal, here the list of its entries, read with \<open>map_of\<close>.\<close>

definition statuses :: "(StatusCode \<times> (string \<times> int)) list" where
  "statuses =
    [(InvalidArgument,    (''INVALID_ARGUMENT'', 400)),
     (FailedPrecondition, (''FAILED_PRECONDITION'', 400)),
     (OutOfRange,         (''OUT_OF_RANGE'', 400)),
     (Unauthenticated,    (''UNAUTHENTICATED'', 401)),
     (PermissionDenied,   (''PERMISSION_DENIED'', 403)),
     (NotFound,           (''NOT_FOUND'', 404)),
     (Aborted,            (''ABORTED'', 409)),
     (AlreadyExists,      (''ALREADY_EXISTS'', 409)),
     (ResourceExhausted,  (''RESOURCE_EXHAUSTED'', 429)),
     (Cancelled,          (''CANCELLED'', 499)),
     (DataLoss,           (''DATA_LOSS'', 500)),
     (Unknown,            (''UNKNOWN'', 500)),
     (Internal,           (''INTERNAL'', 500)),
     (NotImplemented,     (''NOT_IMPLEMENTED'', 501)),
     (Unavailable,        (''UNAVAILABLE'', 503)),
     (DeadlineExceeded,   (''DEADLINE_EXCEEDED'', 504))]"

record callError =
  status :: string
  code :: int
  message :: string

text \<open>
  \<open>newError(code, format, a...)\<close>. The third field is \<open>fmt.Sprintf(format, a...)\<close>;
  the model takes the formatted text as its argument. At the call sites the format is
  a constant without verbs, \<open>"%s"\<close> applied to one string, or a constant prefix followed
  by \<open>%v\<close> of an error, so the formatted text is that constant, that string, or the prefix
  followed by the error's message.
\<close>

definition newError :: "StatusCode \<Rightarrow> string \<Rightarrow> callError" where
  "newError c msg =
     (let s = (case map_of statuses c of
                 Some s \<Rightarrow> s
               | None \<Rightarrow> the (map_of statuses Internal))
      in \<lparr> status = fst s, code = snd s, message = msg \<rparr>)"

text \<open>The method \<open>callError.Error()\<close>.\<close>

definition callError_Error :: "callError \<Rightarrow> string" where
  "callError_Error e =
     (if length (message e) > 0 then status e @ '' '' @ message e else status e)"

section \<open>Strings (the functions of package \<open>strings\<close> the code calls)\<close>

text \<open>
  A Go string is a sequence of bytes, here a \<open>char list\<close>. \<open>strings.Fields\<close> splits
  around runs of white space and \<open>strings.ToLower\<close> maps upper-case letters to lower
  case; both are modelled on ASCII. The code compares the results only with the ASCII
  texts \<open>Bearer\<close>, \<open>utf-8\<close> and \<open>utf8\<close> and with the empty string.
\<close>

definition isSpace :: "char \<Rightarrow> bool" where
  "isSpace c = (c \<in> set [CHR 0x09, CHR 0x0A, CHR 0x0B, CHR 0x0C, CHR 0x0D, CHR 0x20])"

fun Fields_from :: "string \<Rightarrow> string \<Rightarrow> string list" where
  "Fields_from cur [] = (if cur = [] then [] else [cur])"
| "Fields_from cur (c # cs) =
     (if isSpace c then (if cur = [] then Fields_from [] cs else cur # Fields_from [] cs)
      else Fields_from (cur @ [c]) cs)"

definition Fields :: "string \<Rightarrow> string list" where
  "Fields s = Fields_from [] s"

definition toLowerChar :: "char \<Rightarrow> char" where
  "toLowerChar c =
     (case map_of (zip ''ABCDEFGHIJKLMNOPQRSTUVWXYZ'' ''abcdefghijklmnopqrstuvwxyz'') c of
        Some l \<Rightarrow> l
      | None \<Rightarrow> c)"

definition ToLower :: "string \<Rightarrow> string" where
  "ToLower s = map toLowerChar s"

section \<open>Errors\<close>

text \<open>
  A value of Go's interface \<open>error\<close>, as far as \<open>ServeHTTP\<close> tells errors apart: a
  \<open>callError\<close>, one of the two sentinels of package \<open>context\<close>, an opaque error that
  has only a message (\<open>errors.New\<close>, \<open>fmt.Errorf\<close> without \<open>%w\<close>), or an error with a
  message of its own that wraps another one (\<open>Unwrap\<close>).
\<close>

datatype error =
    CallError callError
  | ContextCanceled
  | ContextDeadlineExceeded
  | Errorf string
  | Wrapped string error

fun error_Error :: "error \<Rightarrow> string" where
  "error_Error (CallError e) = callError_Error e"
| "error_Error ContextCanceled = ''context canceled''"
| "error_Error ContextDeadlineExceeded = ''context deadline exceeded''"
| "error_Error (Errorf m) = m"
| "error_Error (Wrapped m e) = m"

text \<open>\<open>errors.As(err, &cerr)\<close> with \<open>cerr\<close> of type \<open>callError\<close>: the first \<open>callError\<close> of the chain.\<close>

fun errors_As :: "error \<Rightarrow> callError option" where
  "errors_As (CallError e) = Some e"
| "errors_As (Wrapped m e) = errors_As e"
| "errors_As _ = None"

text \<open>\<open>errors.Is(err, target)\<close>: some error of the chain equals the target.\<close>

fun errors_Is :: "error \<Rightarrow> error \<Rightarrow> bool" where
  "errors_Is (Wrapped m e) target = (Wrapped m e = target \<or> errors_Is e target)"
| "errors_Is e target = (e = target)"

text \<open>The exported constructor \<open>Error\<close>: a \<open>callError\<close> returned as an \<open>error\<close>.\<close>

definition Error :: "StatusCode \<Rightarrow> string \<Rightarrow> error" where
  "Error c msg = CallError (newError c msg)"

section \<open>HTTP requests and responses (package \<open>net/http\<close>)\<close>

text \<open>
  \<open>http.Header\<close> is a map from header names to the list of their values; a name
  that is not in the map has no values. \<open>Get\<close> returns the first value, or the empty
  string when there is none. Go brings a name to its canonical form when it stores and
  when it looks up, so a header is found under the name the code uses for it.
\<close>

type_synonym header = "string \<Rightarrow> string list"

definition Header_Get :: "header \<Rightarrow> string \<Rightarrow> string" where
  "Header_Get h k = (case h k of [] \<Rightarrow> [] | v # _ \<Rightarrow> v)"

definition Header_Add :: "string \<Rightarrow> string \<Rightarrow> header \<Rightarrow> header" where
  "Header_Add k v h = h(k := h k @ [v])"

definition Header_Set :: "string \<Rightarrow> string \<Rightarrow> header \<Rightarrow> header" where
  "Header_Set k v h = h(k := [v])"

text \<open>JSON values, as package \<open>encoding/json\<close> scans them.\<close>

datatype json =
    JNull
  | JBool bool
  | JNumber string
  | JString string
  | JArray "json list"
  | JObject "(string \<times> json) list"

text \<open>
  The request body is read only by \<open>json.Decoder.Decode\<close>, which scans the first JSON
  value of the stream and ignores what follows it. The body is therefore represented by
  the outcome of that scan: the value, or the error the scanner reports (\<open>EOF\<close> for an
  empty body, a syntax error otherwise).
\<close>

datatype scanned = ScanError string | Value json

record 'x http_Request =
  Method :: string
  Header :: header
  Body :: scanned
  Context :: 'x

definition MethodOptions :: string where "MethodOptions = ''OPTIONS''"
definition MethodPost :: string where "MethodPost = ''POST''"
definition StatusNoContent :: int where "StatusNoContent = 204"
definition StatusMethodNotAllowed :: int where "StatusMethodNotAllowed = 405"

text \<open>The two JSON envelopes of \<open>response.go\<close>, and what is written to the response body.\<close>

record errorData =
  Status :: string
  Message :: string

datatype 'r written =
    dataResponse 'r
  | errorResponse errorData
  | Text string

section \<open>Logging (package \<open>logr\<close>)\<close>

type_synonym Logger = string

text \<open>
  A call of \<open>logger.Error\<close>: the sink (the configured logger, or \<open>None\<close> for the one
  \<open>logr.FromContextOrDiscard\<close> finds in the request's context), the message and the error.
\<close>

type_synonym log_entry = "Logger option \<times> string \<times> error"

text \<open>
  The state a request handler acts on: the \<open>http.ResponseWriter\<close> and the log.
  \<open>WHeader\<close> is the header map the handler edits; \<open>WSent\<close> is the status code with the
  copy of the header map taken when the header is written (\<open>None\<close> before that), which is
  what the client receives; \<open>WBody\<close> is what has been written to the body.
\<close>

record 'r exchange =
  WHeader :: header
  WSent :: "(int \<times> header) option"
  WBody :: "'r written list"
  Logged :: "log_entry list"

text \<open>\<open>w.WriteHeader(code)\<close>: only the first call has an effect.\<close>

definition WriteHeader :: "int \<Rightarrow> 'r exchange \<Rightarrow> 'r exchange" where
  "WriteHeader c w = (case WSent w of None \<Rightarrow> w\<lparr>WSent := Some (c, WHeader w)\<rparr> | Some _ \<Rightarrow> w)"

text \<open>\<open>w.Write\<close>: writes the header with status 200 if it has not been written yet.\<close>

definition Write :: "'r written \<Rightarrow> 'r exchange \<Rightarrow> 'r exchange" where
  "Write b w = (let w' = WriteHeader 200 w in w'\<lparr>WBody := WBody w' @ [b]\<rparr>)"

text \<open>
  What the client receives. When the handler returns without having written the header,
  the server writes it with status 200 and the header map as it then is.
\<close>

definition ResponseStatus :: "'r exchange \<Rightarrow> int" where
  "ResponseStatus w = (case WSent w of None \<Rightarrow> 200 | Some (c, h) \<Rightarrow> c)"

definition ResponseHeader :: "'r exchange \<Rightarrow> string \<Rightarrow> string list" where
  "ResponseHeader w k = (case WSent w of None \<Rightarrow> WHeader w k | Some (c, h) \<Rightarrow> h k)"

text \<open>\<open>http.Error(w, error, code)\<close>.\<close>

definition http_Error :: "'r exchange \<Rightarrow> string \<Rightarrow> int \<Rightarrow> 'r exchange" where
  "http_Error w err c =
     (let w1 = w\<lparr>WHeader := Header_Set ''Content-Type'' ''text/plain; charset=utf-8'' (WHeader w)\<rparr>;
          w2 = w1\<lparr>WHeader := Header_Set ''X-Content-Type-Options'' ''nosniff'' (WHeader w1)\<rparr>;
          w3 = WriteHeader c w2
      in Write (Text (err @ [CHR 0x0A])) w3)"

text \<open>
  The method \<open>callError.write\<close>. An \<open>errorResponse\<close> (two strings) always encodes;
  a failure to write to the connection is only logged through package \<open>log\<close> and is
  not part of the model.
\<close>

definition callError_write :: "callError \<Rightarrow> 'r exchange \<Rightarrow> 'r exchange" where
  "callError_write e w =
     (let w1 = w\<lparr>WHeader := Header_Set ''Content-Type'' ''application/json'' (WHeader w)\<rparr>;
          w2 = WriteHeader (code e) w1;
          data = errorResponse \<lparr>Status = status e, Message = message e\<rparr>
      in Write data w2)"

section \<open>The Callable and its options (callable.go)\<close>

text \<open>
  \<open>auth.Token\<close>, of which the code reads only \<open>UID\<close>, and \<open>auth.Client\<close>, of which the
  code calls only \<open>VerifyIDTokenAndCheckRevoked(ctx, idToken)\<close>: a client is that method.
  A nil \<open>*auth.Client\<close> is \<open>None\<close>.
\<close>

record Token =
  Token_UID :: string

type_synonym 'x auth_Client = "'x \<Rightarrow> string \<Rightarrow> error + Token"

definition VerifyIDTokenAndCheckRevoked :: "'x auth_Client \<Rightarrow> 'x \<Rightarrow> string \<Rightarrow> error + Token" where
  "VerifyIDTokenAndCheckRevoked client ctx idToken = client ctx idToken"

record Call =
  UID :: string
  IID :: string

text \<open>
  A value of the interface \<open>Request\<close>: the object behind the interface (\<open>Target\<close>), its
  method \<open>Handle\<close>, which reads the object, and \<open>Unmarshal\<close>, what \<open>encoding/json\<close>
  does when it decodes a JSON value into the object (the object's type and field tags
  decide it): the object as filled in, or the decoding error's message.
\<close>

record ('q, 'x, 'r) Request =
  Target :: 'q
  Handle :: "'q \<Rightarrow> 'x \<Rightarrow> Call \<Rightarrow> error + 'r"
  Unmarshal :: "json \<Rightarrow> 'q \<Rightarrow> string + 'q"

record ('q, 'x, 'r) Callable =
  request :: "('q, 'x, 'r) Request"
  authClient :: "'x auth_Client option"
  authRequired :: bool
  logger :: "Logger option"

text \<open>The interface \<open>Option\<close> has two implementations, \<open>authOption\<close> and \<open>loggerOption\<close>.\<close>

datatype 'x Option =
    authOption "'x auth_Client option" bool
  | loggerOption Logger

fun config :: "'x Option \<Rightarrow> ('q, 'x, 'r) Callable \<Rightarrow> ('q, 'x, 'r) Callable" where
  "config (authOption client required) c = c\<lparr>authClient := client, authRequired := required\<rparr>"
| "config (loggerOption l) c = c\<lparr>logger := Some l\<rparr>"

definition New :: "('q, 'x, 'r) Request \<Rightarrow> 'x Option list \<Rightarrow> ('q, 'x, 'r) Callable" where
  "New req opts =
     foldl (\<lambda>c opt. config opt c)
       \<lparr>request = req, authClient = None, authRequired = False, logger = None\<rparr> opts"

datatype panic = Panic string

definition WithAuth :: "'x auth_Client option \<Rightarrow> bool \<Rightarrow> panic + 'x Option" where
  "WithAuth client required =
     (if client = None then Inl (Panic ''nil *auth.Client'')
      else Inr (authOption client required))"

definition WithLogger :: "Logger \<Rightarrow> 'x Option" where
  "WithLogger l = loggerOption l"

section \<open>What the standard library decides\<close>

text \<open>
  \<open>mime.ParseMediaType\<close> is a parameter: the media type and the map of its parameters,
  or \<open>None\<close> when it returns an error. \<open>EncodeError\<close> is the error, if any, of encoding
  the handler's result as JSON; nothing is written then.
\<close>

record 'r stdlib =
  ParseMediaType :: "string \<Rightarrow> (string \<times> (string \<rightharpoonup> string)) option"
  EncodeError :: "'r \<Rightarrow> error option"

text \<open>Reading a Go map of strings: the zero value for a key that is absent.\<close>

definition index :: "(string \<rightharpoonup> string) \<Rightarrow> string \<Rightarrow> string" where
  "index m k = (case m k of None \<Rightarrow> [] | Some v \<Rightarrow> v)"

subsection \<open>Decoding the request envelope\<close>

text \<open>
  \<open>Decode(&payload)\<close>, where \<open>payload\<close> is a struct with the one field \<open>Data\<close>, tagged
  \<open>data\<close>, an empty interface that holds \<open>c.request\<close>. This is what \<open>encoding/json\<close>
  does with such a struct:
  \<^item> a member of the object whose key is \<open>data\<close> (the match ignores case) is decoded into
    the field, other members are skipped, and a struct field no member names is left as
    it was;
  \<^item> decoding a value into the field goes through the interface to the request object
    as long as the field holds it; \<open>null\<close> sets the field to nil, after which a later
    \<open>data\<close> member no longer reaches the object;
  \<^item> \<open>null\<close> in place of the object leaves the struct as it was, any other value that
    is not an object is a type error.
  The request object is a pointer to a struct, as in the README and in the tests.
  The boolean of the state says whether the field still holds the request object.
\<close>

definition isDataKey :: "string \<Rightarrow> bool" where
  "isDataKey k = (ToLower k = ''data'')"

fun decodeData :: "(json \<Rightarrow> 'q \<Rightarrow> string + 'q) \<Rightarrow> json \<Rightarrow> bool \<times> 'q \<Rightarrow> string + bool \<times> 'q" where
  "decodeData um JNull (held, t) = Inr (False, t)"
| "decodeData um v (held, t) =
     (if held then (case um v t of Inl e \<Rightarrow> Inl e | Inr t' \<Rightarrow> Inr (True, t'))
      else Inr (False, t))"

fun decodeMembers ::
  "(json \<Rightarrow> 'q \<Rightarrow> string + 'q) \<Rightarrow> (string \<times> json) list \<Rightarrow> bool \<times> 'q \<Rightarrow> string + bool \<times> 'q" where
  "decodeMembers um [] st = Inr st"
| "decodeMembers um ((k, v) # kvs) st =
     (if isDataKey k
      then (case decodeData um v st of Inl e \<Rightarrow> Inl e | Inr st' \<Rightarrow> decodeMembers um kvs st')
      else decodeMembers um kvs st)"

fun jsonKind :: "json \<Rightarrow> string" where
  "jsonKind JNull = ''null''"
| "jsonKind (JBool b) = ''bool''"
| "jsonKind (JNumber n) = ''number''"
| "jsonKind (JString s) = ''string''"
| "jsonKind (JArray vs) = ''array''"
| "jsonKind (JObject kvs) = ''object''"

definition typeError :: "json \<Rightarrow> string" where
  "typeError v = ''json: cannot unmarshal '' @ jsonKind v @ '' into Go value of type struct { Data interface {} ''
       @ [CHR 0x22] @ ''json:'' @ [CHR 0x5C, CHR 0x22] @ ''data'' @ [CHR 0x5C, CHR 0x22, CHR 0x22] @ '' }''"

fun decodePayload :: "scanned \<Rightarrow> ('q, 'x, 'r) Request \<Rightarrow> string + 'q" where
  "decodePayload (ScanError e) req = Inl e"
| "decodePayload (Value JNull) req = Inr (Target req)"
| "decodePayload (Value (JObject kvs)) req =
     (case decodeMembers (Unmarshal req) kvs (True, Target req) of
        Inl e \<Rightarrow> Inl e
      | Inr (held, t) \<Rightarrow> Inr t)"
| "decodePayload (Value v) req = Inl (typeError v)"

subsection \<open>The handlers\<close>

text \<open>\<open>w.Header().Add(k, v)\<close> and \<open>logger.Error(err, msg, ...)\<close>.\<close>

definition W_Header_Add :: "string \<Rightarrow> string \<Rightarrow> 'r exchange \<Rightarrow> 'r exchange" where
  "W_Header_Add k v w = w\<lparr>WHeader := Header_Add k v (WHeader w)\<rparr>"

definition logger_Error :: "Logger option \<Rightarrow> error \<Rightarrow> string \<Rightarrow> 'r exchange \<Rightarrow> 'r exchange" where
  "logger_Error l err msg w = w\<lparr>Logged := Logged w @ [(l, msg, err)]\<rparr>"

definition handleCorsPreflight ::
  "('q, 'x, 'r) Callable \<Rightarrow> 'r exchange \<Rightarrow> 'x http_Request \<Rightarrow> 'r exchange" where
  "handleCorsPreflight c w r =
     (let w1 = W_Header_Add ''Vary'' ''Origin'' w;
          w2 = W_Header_Add ''Vary'' ''Access-Control-Request-Headers'' w1;
          w3 = W_Header_Add ''Access-Control-Allow-Methods'' ''POST'' w2;
          w4 = (if Header_Get (Header r) ''Access-Control-Request-Headers'' \<noteq> []
                then W_Header_Add ''Access-Control-Allow-Headers'' ''*'' w3 else w3);
          origin = Header_Get (Header r) ''Origin'';
          w5 = (if origin \<noteq> [] then W_Header_Add ''Access-Control-Allow-Origin'' origin w4 else w4)
      in WriteHeader StatusNoContent w5)"

definition validateToken :: "('q, 'x, 'r) Callable \<Rightarrow> 'x http_Request \<Rightarrow> error + Token option" where
  "validateToken c r =
     (case authClient c of
        None \<Rightarrow> Inr None
      | Some client \<Rightarrow>
          (let parts = Fields (Header_Get (Header r) ''Authorization'') in
           if length parts = 0 \<and> authRequired c
           then Inl (Errorf ''missing Authorization header'')
           else if length parts \<noteq> 2 \<or> parts ! 0 \<noteq> ''Bearer''
           then Inl (Errorf ''unsupported Authorization header'')
           else (case VerifyIDTokenAndCheckRevoked client (Context r) (parts ! 1) of
                   Inl err \<Rightarrow> Inl err
                 | Inr token \<Rightarrow> Inr (Some token))))"

definition handlePost ::
  "'r stdlib \<Rightarrow> ('q, 'x, 'r) Callable \<Rightarrow> 'r exchange \<Rightarrow> 'x http_Request
     \<Rightarrow> error option \<times> 'r exchange" where
  "handlePost lib c w r =
     (case validateToken c r of
        Inl err \<Rightarrow> (Some (Error Unauthenticated (''invalid ID token: '' @ error_Error err)), w)
      | Inr token \<Rightarrow>
          (let ct = Header_Get (Header r) ''Content-Type'' in
           if ct = [] then (Some (Error InvalidArgument ''missing content type''), w)
           else (case ParseMediaType lib ct of
               None \<Rightarrow> (Some (Error InvalidArgument ''invalid content type''), w)
             | Some (mt, mp) \<Rightarrow>
                 if mt \<noteq> ''application/json''
                 then (Some (Error InvalidArgument ''unsupported content type''), w)
                 else (let cs = ToLower (index mp ''charset'') in
                   if cs \<noteq> [] \<and> cs \<noteq> ''utf-8'' \<and> cs \<noteq> ''utf8''
                   then (Some (Error InvalidArgument ''unsupported encoding''), w)
                   else (let w1 = W_Header_Add ''Vary'' ''Origin'' w;
                             origin = Header_Get (Header r) ''Origin'';
                             w2 = (if origin \<noteq> []
                                   then W_Header_Add ''Access-Control-Allow-Origin'' origin w1
                                   else w1)
                     in (case decodePayload (Body r) (request c) of
                           Inl err \<Rightarrow>
                             (Some (Error InvalidArgument (''failed to decode payload: '' @ err)), w2)
                         | Inr target \<Rightarrow>
                             (let call0 = \<lparr>UID = [], IID = Header_Get (Header r) ''Firebase-Instance-ID-Token''\<rparr>;
                                  call = (case token of
                                            None \<Rightarrow> call0
                                          | Some t \<Rightarrow> call0\<lparr>UID := Token_UID t\<rparr>)
                              in (case Handle (request c) target (Context r) call of
                                    Inl err \<Rightarrow>
                                      (Some err, logger_Error (logger c) err ''callable returned error'' w2)
                                  | Inr result \<Rightarrow>
                                      (let w3 = W_Header_Add ''Content-Type''
                                                  ''application/json; charset=utf-8'' w2
                                       in (case EncodeError lib result of
                                             Some err \<Rightarrow>
                                               (None, logger_Error (logger c) err
                                                        ''failed to write response'' w3)
                                           | None \<Rightarrow> (None, Write (dataResponse result) w3)))))))))))"

definition ServeHTTP ::
  "'r stdlib \<Rightarrow> ('q, 'x, 'r) Callable \<Rightarrow> 'r exchange \<Rightarrow> 'x http_Request \<Rightarrow> 'r exchange" where
  "ServeHTTP lib c w r =
     (if Method r = MethodOptions then handleCorsPreflight c w r
      else if Method r = MethodPost then
        (case handlePost lib c w r of
           (None, w') \<Rightarrow> w'
         | (Some err, w') \<Rightarrow>
             (let cerr = (case errors_As err of
                            Some ce \<Rightarrow> ce
                          | None \<Rightarrow>
                              if errors_Is err ContextCanceled
                              then newError Cancelled (error_Error err)
                              else if errors_Is err ContextDeadlineExceeded
                              then newError DeadlineExceeded (error_Error err)
                              else newError Internal (error_Error err))
              in callError_write cerr w'))
      else http_Error w [] StatusMethodNotAllowed)"

section \<open>The handler and the requests of the package's tests\<close>

text \<open>
  The handler of the tests: a struct with the field \<open>Who\<close>, tagged \<open>who\<close>, and its
  method \<open>Handle\<close>. \<open>errors.New(m)\<close> is an opaque error with the message \<open>m\<close>.
  \<open>testRequest_Unmarshal\<close> is what \<open>encoding/json\<close> does with a pointer to this struct
  (the wording of its type errors is the library's and is not kept to the letter).
\<close>

record testRequest =
  Who :: string

record testResponse =
  Greeting :: string

definition testRequest_Handle :: "testRequest \<Rightarrow> unit \<Rightarrow> Call \<Rightarrow> error + testResponse" where
  "testRequest_Handle r ctx call =
     (if Who r = [] then Inl (Error NotFound ''nobody to greet'')
      else if Who r = ''error'' then Inl (Errorf ''some error'')
      else if IID call \<noteq> [] then Inr \<lparr>Greeting = ''IID: '' @ IID call\<rparr>
      else Inr \<lparr>Greeting = ''Hello '' @ Who r @ ''!''\<rparr>)"

fun testRequest_members :: "(string \<times> json) list \<Rightarrow> testRequest \<Rightarrow> string + testRequest" where
  "testRequest_members [] t = Inr t"
| "testRequest_members ((k, v) # kvs) t =
     (if ToLower k = ''who''
      then (case v of
              JString s \<Rightarrow> testRequest_members kvs (t\<lparr>Who := s\<rparr>)
            | JNull \<Rightarrow> testRequest_members kvs t
            | _ \<Rightarrow> Inl (''json: cannot unmarshal '' @ jsonKind v @ '' into Go struct field who of type string''))
      else testRequest_members kvs t)"

fun testRequest_Unmarshal :: "json \<Rightarrow> testRequest \<Rightarrow> string + testRequest" where
  "testRequest_Unmarshal JNull t = Inr t"
| "testRequest_Unmarshal (JObject kvs) t = testRequest_members kvs t"
| "testRequest_Unmarshal v t =
     Inl (''json: cannot unmarshal '' @ jsonKind v @ '' into Go value of type callable.testRequest'')"

text \<open>\<open>&testRequest{}\<close> as a \<open>Request\<close>.\<close>

definition new_testRequest :: "(testRequest, unit, testResponse) Request" where
  "new_testRequest =
     \<lparr>Target = \<lparr>Who = []\<rparr>, Handle = testRequest_Handle, Unmarshal = testRequest_Unmarshal\<rparr>"

text \<open>\<open>httptest.NewRecorder()\<close> and \<open>httptest.NewRequest(method, "/", body)\<close>.\<close>

definition NewRecorder :: "'r exchange" where
  "NewRecorder = \<lparr>WHeader = (\<lambda>k. []), WSent = None, WBody = [], Logged = []\<rparr>"

definition NewRequest :: "string \<Rightarrow> scanned \<Rightarrow> unit http_Request" where
  "NewRequest m b = \<lparr>Method = m, Header = (\<lambda>k. []), Body = b, Context = ()\<rparr>"

definition Request_Header_Set :: "string \<Rightarrow> string \<Rightarrow> 'x http_Request \<Rightarrow> 'x http_Request" where
  "Request_Header_Set k v r = r\<lparr>Header := Header_Set k v (Header r)\<rparr>"

text \<open>
  What \<open>mime.ParseMediaType\<close> returns for the \<open>Content-Type\<close> values of the examples
  below (for no other value is this table consulted), and an encoder that does not fail.
\<close>

definition mediaTypes :: "(string \<times> (string \<times> (string \<rightharpoonup> string))) list" where
  "mediaTypes =
    [(''application/json'', (''application/json'', Map.empty)),
     (''text/plain'', (''text/plain'', Map.empty)),
     (''application/json; charset=iso-8859-1'',
        (''application/json'', [''charset'' \<mapsto> ''iso-8859-1''])),
     (''Application/JSON; charset=UTF-8; boundary=x'',
        (''application/json'', [''charset'' \<mapsto> ''UTF-8'', ''boundary'' \<mapsto> ''x'']))]"

definition testlib :: "testResponse stdlib" where
  "testlib = \<lparr>ParseMediaType = map_of mediaTypes, EncodeError = (\<lambda>r. None)\<rparr>"

text \<open>The bodies \<open>{"data":{"who":"World"}}\<close> and \<open>{"data":{}}\<close>, and a POST with such a body.\<close>

definition body_World :: scanned where
  "body_World = Value (JObject [(''data'', JObject [(''who'', JString ''World'')])])"

definition body_empty_data :: scanned where
  "body_empty_data = Value (JObject [(''data'', JObject [])])"

definition post_json :: "scanned \<Rightarrow> unit http_Request" where
  "post_json b = Request_Header_Set ''Content-Type'' ''application/json'' (NewRequest MethodPost b)"

text \<open>
  An auth client for the examples: it accepts the ID token \<open>good\<close>, of the user
  \<open>alice\<close>, and rejects every other token.
\<close>

definition testClient :: "unit auth_Client" where
  "testClient ctx idToken =
     (if idToken = ''good'' then Inr \<lparr>Token_UID = ''alice''\<rparr>
      else Inl (Errorf ''ID token has expired''))"

section \<open>Predicates used to state the properties\<close>

text \<open>
  The \<open>Content-Type\<close> header passes the four checks of \<open>handlePost\<close>: it is not
  empty, it parses, the media type is \<open>application/json\<close>, and the \<open>charset\<close>
  parameter, lower-cased, is empty, \<open>utf-8\<close> or \<open>utf8\<close>.
\<close>

definition contentTypeAccepted :: "'r stdlib \<Rightarrow> 'x http_Request \<Rightarrow> bool" where
  "contentTypeAccepted lib r =
     (Header_Get (Header r) ''Content-Type'' \<noteq> [] \<and>
      (case ParseMediaType lib (Header_Get (Header r) ''Content-Type'') of
         None \<Rightarrow> False
       | Some (mt, mp) \<Rightarrow>
           mt = ''application/json'' \<and>
           ToLower (index mp ''charset'') \<in> set [[], ''utf-8'', ''utf8'']))"


text \<open>
  An option that the exported constructors \<open>WithAuth\<close> and \<open>WithLogger\<close> can
  return. The option types are not exported, so a caller has no other options.
\<close>

definition constructed :: "'x Option \<Rightarrow> bool" where
  "constructed opt =
     (case opt of
        authOption client required \<Rightarrow> WithAuth client required = Inr opt
      | loggerOption l \<Rightarrow> WithLogger l = opt)"

fun isAuthOption :: "'x Option \<Rightarrow> bool" where
  "isAuthOption (authOption client required) = True"
| "isAuthOption (loggerOption l) = False"

section \<open>Properties of the taxonomy\<close>

lemmas StatusCode_defs =
  InvalidArgument_def FailedPrecondition_def OutOfRange_def Unauthenticated_def
  PermissionDenied_def NotFound_def Aborted_def AlreadyExists_def ResourceExhausted_def
  Cancelled_def DataLoss_def Unknown_def Internal_def NotImplemented_def Unavailable_def
  DeadlineExceeded_def


lemma map_of_statuses_outside:
  "k < 0 \<or> 15 < k \<Longrightarrow> map_of statuses k = None"
  by (auto simp add: statuses_def StatusCode_defs)

lemma map_of_statuses_Internal:
  "map_of statuses Internal = Some (''INTERNAL'', 500)"
  by (simp add: statuses_def StatusCode_defs)

text \<open>
  Claim C6. For each of the sixteen kinds of the enumeration, \<open>newError\<close> yields the
  status string and the HTTP code of the status table; for every integer outside the
  enumeration (below 0 or above 15) it yields \<open>INTERNAL\<close> and 500, the pair of
  \<open>Internal\<close>. The message is the one given, in every case.
\<close>

theorem newError_table:
  "newError InvalidArgument m = \<lparr>status = ''INVALID_ARGUMENT'', code = 400, message = m\<rparr>
   \<and> newError FailedPrecondition m = \<lparr>status = ''FAILED_PRECONDITION'', code = 400, message = m\<rparr>
   \<and> newError OutOfRange m = \<lparr>status = ''OUT_OF_RANGE'', code = 400, message = m\<rparr>
   \<and> newError Unauthenticated m = \<lparr>status = ''UNAUTHENTICATED'', code = 401, message = m\<rparr>
   \<and> newError PermissionDenied m = \<lparr>status = ''PERMISSION_DENIED'', code = 403, message = m\<rparr>
   \<and> newError NotFound m = \<lparr>status = ''NOT_FOUND'', code = 404, message = m\<rparr>
   \<and> newError Aborted m = \<lparr>status = ''ABORTED'', code = 409, message = m\<rparr>
   \<and> newError AlreadyExists m = \<lparr>status = ''ALREADY_EXISTS'', code = 409, message = m\<rparr>
   \<and> newError ResourceExhausted m = \<lparr>status = ''RESOURCE_EXHAUSTED'', code = 429, message = m\<rparr>
   \<and> newError Cancelled m = \<lparr>status = ''CANCELLED'', code = 499, message = m\<rparr>
   \<and> newError DataLoss m = \<lparr>status = ''DATA_LOSS'', code = 500, message = m\<rparr>
   \<and> newError Unknown m = \<lparr>status = ''UNKNOWN'', code = 500, message = m\<rparr>
   \<and> newError Internal m = \<lparr>status = ''INTERNAL'', code = 500, message = m\<rparr>
   \<and> newError NotImplemented m = \<lparr>status = ''NOT_IMPLEMENTED'', code = 501, message = m\<rparr>
   \<and> newError Unavailable m = \<lparr>status = ''UNAVAILABLE'', code = 503, message = m\<rparr>
   \<and> newError DeadlineExceeded m = \<lparr>status = ''DEADLINE_EXCEEDED'', code = 504, message = m\<rparr>
   \<and> (\<forall>k. k < 0 \<or> 15 < k \<longrightarrow>
          newError k m = \<lparr>status = ''INTERNAL'', code = 500, message = m\<rparr>
        \<and> newError k m = newError Internal m)"
proof -
  have inside: "\<And>k s. map_of statuses k = Some s \<Longrightarrow>
      newError k m = \<lparr>status = fst s, code = snd s, message = m\<rparr>"
    by (simp add: newError_def)
  have outside: "\<And>k. k < 0 \<or> 15 < k \<Longrightarrow>
      newError k m = \<lparr>status = ''INTERNAL'', code = 500, message = m\<rparr>"
    by (simp add: newError_def map_of_statuses_outside map_of_statuses_Internal)
  have internal: "newError Internal m = \<lparr>status = ''INTERNAL'', code = 500, message = m\<rparr>"
    by (simp add: newError_def map_of_statuses_Internal)
  show ?thesis
    apply (intro conjI allI impI)
                      apply (rule inside [THEN trans], simp add: statuses_def StatusCode_defs, simp)+
     apply (erule outside)
    apply (simp add: outside internal)
    done
qed

theorem newError_table_witness:
  "newError (- 1) ''test message with param''
     = \<lparr>status = ''INTERNAL'', code = 500, message = ''test message with param''\<rparr>
   \<and> newError 16 ''x'' = newError Internal ''x''
   \<and> callError_Error (newError (- 1) ''test message with param'')
     = ''INTERNAL test message with param''"
  using newError_table [of "''test message with param''"] newError_table [of "''x''"]
  by (simp add: callError_Error_def)

section \<open>CORS preflight\<close>



section \<open>Construction\<close>

lemma foldl_config_authClient:
  assumes "\<forall>opt \<in> set opts. constructed opt"
    and "authClient c \<noteq> None \<or> (\<exists>opt \<in> set opts. isAuthOption opt)"
  shows "authClient (foldl (\<lambda>c opt. config opt c) c opts) \<noteq> None"
  using assms
proof (induction opts arbitrary: c)
  case Nil
  then show ?case by simp
next
  case (Cons opt opts)
  show ?case
  proof (cases opt)
    case (authOption client required)
    with Cons.prems(1) have "client \<noteq> None"
      by (auto simp add: constructed_def WithAuth_def split: if_splits)
    then have "authClient (config opt c) \<noteq> None"
      using authOption by simp
    with Cons.prems(1) Cons.IH [of "config opt c"] show ?thesis by simp
  next
    case (loggerOption l)
    then have "authClient (config opt c) = authClient c" by simp
    with Cons.prems loggerOption Cons.IH [of "config opt c"] show ?thesis by auto
  qed
qed

text \<open>
  Claim C10. \<open>WithAuth\<close> with a nil client panics, whatever the \<open>required\<close> flag;
  so a Callable made by \<open>New\<close> from options that \<open>WithAuth\<close> and \<open>WithLogger\<close>
  returned, one of them an auth option, holds a client that is not nil.
\<close>

theorem WithAuth_nil_panics:
  "WithAuth None required = Inl (Panic ''nil *auth.Client'')
   \<and> ((\<forall>opt \<in> set opts. constructed opt) \<and> (\<exists>opt \<in> set opts. isAuthOption opt)
        \<longrightarrow> authClient (New req opts) \<noteq> None)"
  using foldl_config_authClient [of opts]
  by (auto simp add: WithAuth_def New_def)

theorem WithAuth_nil_panics_witness:
  "WithAuth (None :: unit auth_Client option) False = Inl (Panic ''nil *auth.Client'')
   \<and> WithAuth (None :: unit auth_Client option) True = Inl (Panic ''nil *auth.Client'')
   \<and> WithAuth (Some testClient) False = Inr (authOption (Some testClient) False)
   \<and> authClient (New new_testRequest [WithLogger ''log'', authOption (Some testClient) False])
       \<noteq> None"
  using WithAuth_nil_panics [of False "[WithLogger ''log'', authOption (Some testClient) False]" new_testRequest]
    WithAuth_nil_panics [where required = True and opts = "[] :: unit Option list"]
  by (simp add: WithAuth_def WithLogger_def constructed_def)

section \<open>Auxiliary facts\<close>

lemmas fixture_defs = New_def NewRecorder_def NewRequest_def post_json_def Request_Header_Set_def
  Header_Set_def Header_Get_def testlib_def mediaTypes_def MethodPost_def MethodOptions_def
  new_testRequest_def body_World_def body_empty_data_def testRequest_Handle_def testClient_def

lemmas eval_defs = ServeHTTP_def handlePost_def validateToken_def fixture_defs
  Header_Add_def W_Header_Add_def VerifyIDTokenAndCheckRevoked_def Fields_def isSpace_def
  isDataKey_def ToLower_def toLowerChar_def index_def Error_def newError_def statuses_def
  StatusCode_defs callError_write_def WriteHeader_def Write_def logger_Error_def
  ResponseStatus_def ResponseHeader_def contentTypeAccepted_def callError_Error_def Let_def




















section \<open>Content negotiation\<close>



section \<open>Failures of the handler\<close>



section \<open>CORS headers of POST responses\<close>




section \<open>Token check\<close>




text \<open>
  Claim C2. With a client configured by \<open>WithAuth(client, false)\<close>, a POST without an
  \<open>Authorization\<close> header should reach the handler with no user id. In the code it does
  not: \<open>validateToken\<close> skips the \<open>missing\<close> error, since the token is not required,
  but then falls into the next check, which rejects a header that is not \<open>Bearer\<close> and
  one token. The request of the tests' success case, which is answered 200 without a
  client, is answered 401 here and the handler does not run.
\<close>

theorem optional_auth_rejects_absent_header:
  "authClient (New new_testRequest [authOption (Some testClient) False]) = Some testClient
   \<and> \<not> authRequired (New new_testRequest [authOption (Some testClient) False])
   \<and> Header (post_json body_World) ''Authorization'' = []
   \<and> ResponseStatus (ServeHTTP testlib (New new_testRequest [authOption (Some testClient) False])
        NewRecorder (post_json body_World)) = 401
   \<and> WBody (ServeHTTP testlib (New new_testRequest [authOption (Some testClient) False])
        NewRecorder (post_json body_World))
     = [errorResponse \<lparr>Status = ''UNAUTHENTICATED'',
          Message = ''invalid ID token: unsupported Authorization header''\<rparr>]"
  by (simp add: eval_defs)

section \<open>Content type of error responses\<close>

text \<open>
  Claim C4. An error response of the dispatch path should carry
  \<open>Content-Type: application/json; charset=utf-8\<close>. In the code every error of
  \<open>handlePost\<close> is written by \<open>callError.write\<close>, which sets the header to
  \<open>application/json\<close>: the request of the test \<open>TestCallable_Error\<close> is answered 404
  with \<open>Content-Type: application/json\<close>, without the charset the test asserts.
\<close>

theorem error_response_content_type:
  "ResponseStatus (ServeHTTP testlib (New new_testRequest []) NewRecorder
      (post_json body_empty_data)) = 404
   \<and> ResponseHeader (ServeHTTP testlib (New new_testRequest []) NewRecorder
      (post_json body_empty_data)) ''Content-Type'' = [''application/json'']
   \<and> ResponseHeader (ServeHTTP testlib (New new_testRequest []) NewRecorder
      (post_json body_empty_data)) ''Content-Type'' \<noteq> [''application/json; charset=utf-8'']"
  by (simp add: eval_defs)

section \<open>Decoding the request body\<close>




end
